theory Spec2Isabelle
  imports Main
begin

section \<open>Values, tables and the environment of \<^verbatim>\<open>make_text.py\<close>\<close>

text \<open>
  The script reads a spreadsheet into a pandas DataFrame, derives two path columns,
  attaches constant columns and writes the table with \<^verbatim>\<open>to_csv\<close>. The model keeps
  the cells typed. A Python float is held by its exact value \<open>m * 2^e\<close>
  (\<open>Fin m e\<close>) or is one of the three special values; the program never computes
  with a float, it only stores and compares it. The null of pandas is the float NaN.
\<close>

datatype pyfloat = Fin int int | PosInf | NegInf | NaN

datatype pyval = PStr string | PInt int | PFloat pyfloat

definition isnull :: "pyval \<Rightarrow> bool" where
  "isnull v = (v = PFloat NaN)"

text \<open>
  A DataFrame with the default \<^verbatim>\<open>RangeIndex\<close>: the number of rows and the columns in
  order, each with its name and its cells. \<open>wf_df\<close> is the invariant that pandas
  maintains: column names are distinct (\<^verbatim>\<open>read_excel\<close> renames duplicates) and every
  column has one cell per row.
\<close>

record dataframe =
  nrows :: nat
  cols :: "(string \<times> pyval list) list"

definition wf_df :: "dataframe \<Rightarrow> bool" where
  "wf_df df = (distinct (map fst (cols df)) \<and> list_all (\<lambda>(c, vs). length vs = nrows df) (cols df))"

datatype py_error =
    AssertionError
  | AttributeError
  | KeyError string
  | TypeError
  | ValueError
  | IndexError
  | OSError

text \<open>
  How the process ends: an uncaught exception, or \<^verbatim>\<open>sys.exit(n)\<close>. The interpreter
  turns an uncaught exception into exit status 1.
\<close>

datatype status = Raised py_error | Exited int

fun exit_code :: "status \<Rightarrow> int" where
  "exit_code (Exited n) = n"
| "exit_code (Raised e) = 1"

text \<open>
  The parsed command line (\<^verbatim>\<open>args\<close> in \<^verbatim>\<open>main\<close>). The field names are the \<^verbatim>\<open>dest\<close>
  names of the source with the prefix \<open>ns_\<close>.
\<close>

record namespace =
  ns_input_file :: string
  ns_quantification_window_center :: int
  ns_quantification_window_size :: int
  ns_min_average_read_quality :: int
  ns_fastq_dir :: string
  ns_min_frequency_alleles_around_cut_to_plot :: pyfloat
  ns_plot_window_size :: int
  ns_outfile :: string

text \<open>
  A record of the \<^verbatim>\<open>logging\<close> module: level, message, the arguments of its \<^verbatim>\<open>%s\<close>
  places and the \<^verbatim>\<open>exc_info\<close> flag.
\<close>

datatype level = DEBUG | INFO | WARNING | ERROR

datatype logarg = ArgStr string | ArgNamespace namespace

record log_record =
  levelname :: level
  msg :: string
  args :: "logarg list"
  exc_info :: bool

definition logging_debug :: "string \<Rightarrow> logarg list \<Rightarrow> log_record" where
  "logging_debug m as = \<lparr>levelname = DEBUG, msg = m, args = as, exc_info = False\<rparr>"

definition logging_info :: "string \<Rightarrow> logarg list \<Rightarrow> log_record" where
  "logging_info m as = \<lparr>levelname = INFO, msg = m, args = as, exc_info = False\<rparr>"

definition logging_warning :: "string \<Rightarrow> logarg list \<Rightarrow> log_record" where
  "logging_warning m as = \<lparr>levelname = WARNING, msg = m, args = as, exc_info = False\<rparr>"

definition logging_error :: "string \<Rightarrow> logarg list \<Rightarrow> bool \<Rightarrow> log_record" where
  "logging_error m as ei = \<lparr>levelname = ERROR, msg = m, args = as, exc_info = ei\<rparr>"

text \<open>
  What \<^verbatim>\<open>to_csv\<close> writes: the separator it was given and the records of the file, the
  header first. Quoting of a field and the line terminator are the csv library's and are
  not modelled; a record is kept as the list of its fields.
\<close>

record csv_file =
  csv_sep :: string
  csv_records :: "pyval list list"

text \<open>
  The world the script runs in:
  \<^item> \<open>log_file_opens\<close>: whether \<^verbatim>\<open>logging.basicConfig\<close> of line 13 can open
    \<^verbatim>\<open>tmp/make_text_log.log\<close> for writing; it cannot when the directory \<^verbatim>\<open>tmp\<close> is
    absent or not writable, or when the working directory is gone, and the call then
    raises \<^verbatim>\<open>FileNotFoundError\<close> or another \<^verbatim>\<open>OSError\<close>;
  \<^item> \<open>read_excel\<close>: what \<^verbatim>\<open>pd.read_excel\<close> returns for a path, \<open>None\<close> when it
    raises an \<^verbatim>\<open>Exception\<close>;
  \<^item> \<open>path_exists\<close>: the result of \<^verbatim>\<open>Path(p).exists()\<close>, \<open>None\<close> when the call
    raises \<^verbatim>\<open>OSError\<close>, as it does for a name that is too long or a directory that
    may not be searched;
  \<^item> \<open>can_write\<close>: which paths \<^verbatim>\<open>to_csv\<close> can write;
  \<^item> \<open>getcwd\<close>: the working directory.
\<close>

record world =
  log_file_opens :: bool
  read_excel :: "string \<Rightarrow> dataframe option"
  path_exists :: "string \<Rightarrow> bool option"
  can_write :: "string \<Rightarrow> bool"
  getcwd :: string

text \<open>The observable result of a run: how it ended, what it logged, what it wrote.\<close>

record outcome =
  status :: status
  log :: "log_record list"
  written :: "(string \<times> csv_file) option"

definition raise :: "py_error \<Rightarrow> log_record list \<Rightarrow> outcome" where
  "raise e lg = \<lparr>status = Raised e, log = lg, written = None\<rparr>"

section \<open>The pandas operations the script uses\<close>

text \<open>\<^verbatim>\<open>df.isnull().any(axis=1)\<close> at row \<open>i\<close>, and \<^verbatim>\<open>df[df.isnull().any(axis=1)]\<close>.\<close>

definition isnull_any :: "dataframe \<Rightarrow> nat \<Rightarrow> bool" where
  "isnull_any df i = list_ex (\<lambda>(c, vs). isnull (vs ! i)) (cols df)"

definition null_rows :: "dataframe \<Rightarrow> nat list" where
  "null_rows df = filter (isnull_any df) [0..<nrows df]"

text \<open>\<^verbatim>\<open>df[[c]]\<close>: the one-column frame, or \<^verbatim>\<open>KeyError\<close>.\<close>

definition getitem :: "dataframe \<Rightarrow> string \<Rightarrow> py_error + dataframe" where
  "getitem df c =
     (case map_of (cols df) c of
        None \<Rightarrow> Inl (KeyError c)
      | Some vs \<Rightarrow> Inr (df\<lparr>cols := [(c, vs)]\<rparr>))"

text \<open>\<^verbatim>\<open>df[c]\<close>: the cells of a column, or \<^verbatim>\<open>KeyError\<close>.\<close>

definition getcol :: "dataframe \<Rightarrow> string \<Rightarrow> py_error + pyval list" where
  "getcol df c =
     (case map_of (cols df) c of
        None \<Rightarrow> Inl (KeyError c)
      | Some vs \<Rightarrow> Inr vs)"

text \<open>\<^verbatim>\<open>df.columns = names\<close>: \<^verbatim>\<open>ValueError\<close> on a length mismatch.\<close>

definition set_columns :: "dataframe \<Rightarrow> string list \<Rightarrow> py_error + dataframe" where
  "set_columns df names =
     (if length names \<noteq> length (cols df) then Inl ValueError
      else Inr (df\<lparr>cols := zip names (map snd (cols df))\<rparr>))"

text \<open>
  \<^verbatim>\<open>series + suffix\<close> on a column of cells: a string cell is concatenated, a null cell
  stays null (\<open>None\<close>), any other cell raises \<^verbatim>\<open>TypeError\<close>.
\<close>

fun series_add_str :: "pyval list \<Rightarrow> string \<Rightarrow> py_error + string option list" where
  "series_add_str [] s = Inr []"
| "series_add_str (v # vs) s =
     (case (if isnull v then Inr None
            else (case v of PStr x \<Rightarrow> Inr (Some (x @ s)) | PInt n \<Rightarrow> Inl TypeError
                  | PFloat f \<Rightarrow> Inl TypeError)) of
        Inl e \<Rightarrow> Inl e
      | Inr y \<Rightarrow> (case series_add_str vs s of Inl e \<Rightarrow> Inl e | Inr ys \<Rightarrow> Inr (y # ys)))"

text \<open>\<^verbatim>\<open>series.astype(str)\<close> on such a column: a null becomes the string \<^verbatim>\<open>nan\<close>.\<close>

definition astype_str :: "string option list \<Rightarrow> string list" where
  "astype_str ys = map (\<lambda>y. case y of None \<Rightarrow> ''nan'' | Some x \<Rightarrow> x) ys"

text \<open>\<^verbatim>\<open>prefix + series\<close> on a column of strings.\<close>

definition str_radd :: "string \<Rightarrow> string list \<Rightarrow> pyval list" where
  "str_radd prefix xs = map (\<lambda>x. PStr (prefix @ x)) xs"

text \<open>
  \<^verbatim>\<open>df[c] = cells\<close>: an existing column is replaced where it stands, a new one is
  appended. \<^verbatim>\<open>df[c] = scalar\<close> fills the column with the scalar, and
  \<^verbatim>\<open>df[c] = frame\<close> takes the cells of a one-column frame on the same index
  (\<^verbatim>\<open>ValueError\<close> for any other number of columns).
\<close>

fun set_col :: "(string \<times> pyval list) list \<Rightarrow> string \<Rightarrow> pyval list \<Rightarrow> (string \<times> pyval list) list" where
  "set_col [] c vs = [(c, vs)]"
| "set_col ((k, old) # ps) c vs = (if k = c then (k, vs) # ps else (k, old) # set_col ps c vs)"

definition setitem :: "dataframe \<Rightarrow> string \<Rightarrow> pyval list \<Rightarrow> dataframe" where
  "setitem df c vs = df\<lparr>cols := set_col (cols df) c vs\<rparr>"

definition setitem_scalar :: "dataframe \<Rightarrow> string \<Rightarrow> pyval \<Rightarrow> dataframe" where
  "setitem_scalar df c v = setitem df c (replicate (nrows df) v)"

definition setitem_frame :: "dataframe \<Rightarrow> string \<Rightarrow> dataframe \<Rightarrow> py_error + dataframe" where
  "setitem_frame df c frame =
     (case cols frame of
        [(k, vs)] \<Rightarrow> Inr (setitem df c vs)
      | _ \<Rightarrow> Inl ValueError)"

text \<open>
  \<^verbatim>\<open>df.insert(loc, c, scalar)\<close>: \<^verbatim>\<open>ValueError\<close> when the column exists, \<^verbatim>\<open>IndexError\<close>
  when \<open>loc\<close> is beyond the last column.
\<close>

definition insert_col :: "dataframe \<Rightarrow> nat \<Rightarrow> string \<Rightarrow> pyval \<Rightarrow> py_error + dataframe" where
  "insert_col df loc c v =
     (if c \<in> set (map fst (cols df)) then Inl ValueError
      else if length (cols df) < loc then Inl IndexError
      else Inr (df\<lparr>cols := take loc (cols df) @ [(c, replicate (nrows df) v)] @ drop loc (cols df)\<rparr>))"

text \<open>
  \<^verbatim>\<open>df.to_csv(path, sep=sep, index=index)\<close> with the default \<^verbatim>\<open>header=True\<close>: the header
  record, then one record per row; with \<^verbatim>\<open>index=True\<close> every record starts with the
  index field.
\<close>

definition to_csv :: "dataframe \<Rightarrow> string \<Rightarrow> bool \<Rightarrow> csv_file" where
  "to_csv df sep index =
     \<lparr>csv_sep = sep,
      csv_records =
        ((if index then [PStr []] else []) @ map (\<lambda>(c, vs). PStr c) (cols df))
        # map (\<lambda>i. (if index then [PInt (int i)] else []) @ map (\<lambda>(c, vs). vs ! i) (cols df))
            [0..<nrows df]\<rparr>"

section \<open>The script\<close>

text \<open>
  Lines 96 and 97 (and 99 and 100) of \<^verbatim>\<open>make_text_input\<close>. Line 96 stores
  \<^verbatim>\<open>name + suffix\<close> in the new column and line 97 overwrites it with
  \<^verbatim>\<open>fastq_dir + column.astype(str)\<close>; the model computes the two lines as one
  assignment, the column being read nowhere in between.
\<close>

definition fastq_column :: "string \<Rightarrow> pyval list \<Rightarrow> string \<Rightarrow> py_error + pyval list" where
  "fastq_column fastq_dir name suffix =
     (case series_add_str name suffix of
        Inl e \<Rightarrow> Inl e
      | Inr ys \<Rightarrow> Inr (str_radd fastq_dir (astype_str ys)))"

text \<open>Lines 92 to 100: the name column and the two path columns.\<close>

definition derive_paths :: "dataframe \<Rightarrow> string \<Rightarrow> py_error + dataframe" where
  "derive_paths input_df fastq_dir =
     (case getitem input_df ''NGS_sample_name'' of Inl e \<Rightarrow> Inl e | Inr out_df \<Rightarrow>
     (case set_columns out_df [''name''] of Inl e \<Rightarrow> Inl e | Inr out_df \<Rightarrow>
     (case getcol out_df ''name'' of Inl e \<Rightarrow> Inl e | Inr name \<Rightarrow>
     (case fastq_column fastq_dir name ''_R1_001.fastq.gz'' of Inl e \<Rightarrow> Inl e | Inr r1 \<Rightarrow>
     (let out_df = setitem out_df ''fastq_r1'' r1 in
     (case getcol out_df ''name'' of Inl e \<Rightarrow> Inl e | Inr name \<Rightarrow>
     (case fastq_column fastq_dir name ''_R2_001.fastq.gz'' of Inl e \<Rightarrow> Inl e | Inr r2 \<Rightarrow>
      Inr (setitem out_df ''fastq_r2'' r2))))))))"

text \<open>
  Line 104: the paths of the two columns that do not exist, the second column's first.
  The cells are visited in order; \<^verbatim>\<open>Path(x)\<close> raises \<^verbatim>\<open>TypeError\<close> on a cell that is
  not a string, and \<^verbatim>\<open>exists()\<close> may raise \<^verbatim>\<open>OSError\<close>. The line stands outside any
  \<^verbatim>\<open>try\<close>, so either exception ends the run. The source holds the paths in a Python
  set, whose iteration order is not fixed; the model lists each path once, and no
  statement below depends on the order.
\<close>

fun missing_in :: "world \<Rightarrow> pyval list \<Rightarrow> py_error + string list" where
  "missing_in w [] = Inr []"
| "missing_in w (PStr x # vs) =
     (case path_exists w x of
        None \<Rightarrow> Inl OSError
      | Some b \<Rightarrow>
         (case missing_in w vs of
            Inl e \<Rightarrow> Inl e
          | Inr xs \<Rightarrow> Inr (if b then xs else x # xs)))"
| "missing_in w (v # vs) = Inl TypeError"

definition missing_fastq_files :: "world \<Rightarrow> dataframe \<Rightarrow> py_error + string list" where
  "missing_fastq_files w out_df =
     (case getcol out_df ''fastq_r2'' of Inl e \<Rightarrow> Inl e | Inr r2 \<Rightarrow>
     (case missing_in w r2 of Inl e \<Rightarrow> Inl e | Inr m2 \<Rightarrow>
     (case getcol out_df ''fastq_r1'' of Inl e \<Rightarrow> Inl e | Inr r1 \<Rightarrow>
     (case missing_in w r1 of Inl e \<Rightarrow> Inl e | Inr m1 \<Rightarrow>
      Inr (remdups (m2 @ m1))))))"

text \<open>
  Lines 106 to 110: \<^verbatim>\<open>open(file, 'r')\<close> on a path that does not exist raises
  \<^verbatim>\<open>IOError\<close>, and the handler logs one warning for it.
\<close>

definition warn_missing :: "string list \<Rightarrow> log_record list" where
  "warn_missing files = map (\<lambda>file. logging_warning (''File does not exist: '' @ file) []) files"

text \<open>
  Lines 112 to 126: the three inserted columns, the assertion on the directory, the two
  copied columns, the two appended constants and the final null check. Line 119 calls
  \<^verbatim>\<open>exists()\<close> on the directory: the call may raise \<^verbatim>\<open>OSError\<close>, and the assertion
  fails when it returns \<^verbatim>\<open>False\<close>.
\<close>

definition add_columns ::
  "world \<Rightarrow> dataframe \<Rightarrow> dataframe \<Rightarrow> int \<Rightarrow> int \<Rightarrow> int \<Rightarrow> string \<Rightarrow> pyfloat \<Rightarrow> int \<Rightarrow> py_error + dataframe" where
  "add_columns w input_df out_df quantification_window_center quantification_window_size
       min_average_read_quality fastq_dir min_frequency_alleles_around_cut_to_plot plot_window_size =
     (case insert_col out_df 1 ''quantification_window_center'' (PInt quantification_window_center) of
        Inl e \<Rightarrow> Inl e | Inr out_df \<Rightarrow>
     (case insert_col out_df 2 ''quantification_window_size'' (PInt quantification_window_size) of
        Inl e \<Rightarrow> Inl e | Inr out_df \<Rightarrow>
     (case insert_col out_df 3 ''min_average_read_quality'' (PInt min_average_read_quality) of
        Inl e \<Rightarrow> Inl e | Inr out_df \<Rightarrow>
     (case path_exists w fastq_dir of None \<Rightarrow> Inl OSError | Some found \<Rightarrow>
     (if \<not> found then Inl AssertionError else
     (case getitem input_df ''Ref_sequence'' of Inl e \<Rightarrow> Inl e | Inr ref \<Rightarrow>
     (case setitem_frame out_df ''amplicon_seq'' ref of Inl e \<Rightarrow> Inl e | Inr out_df \<Rightarrow>
     (case getitem input_df ''Guide_Sequence'' of Inl e \<Rightarrow> Inl e | Inr guide \<Rightarrow>
     (case setitem_frame out_df ''guide_seq'' guide of Inl e \<Rightarrow> Inl e | Inr out_df \<Rightarrow>
     (let out_df = setitem_scalar out_df ''min_frequency_alleles_around_cut_to_plot''
                     (PFloat min_frequency_alleles_around_cut_to_plot);
          out_df = setitem_scalar out_df ''plot_window_size'' (PInt plot_window_size) in
      if length (null_rows out_df) \<noteq> 0 then Inl AssertionError else Inr out_df))))))))))"

text \<open>
  \<^verbatim>\<open>make_text_input\<close>, lines 67 to 137. When \<^verbatim>\<open>read_excel\<close> raises, the handler of
  line 87 evaluates \<^verbatim>\<open>logging.info.error\<close>; \<^verbatim>\<open>logging.info\<close> is a function without
  such an attribute, so the handler itself raises \<^verbatim>\<open>AttributeError\<close> and nothing is
  logged. A failing \<^verbatim>\<open>to_csv\<close> is caught and logged by line 133; line 135 and
  \<^verbatim>\<open>sys.exit(0)\<close> run in both cases.
\<close>

definition make_text_input ::
  "world \<Rightarrow> string \<Rightarrow> int \<Rightarrow> int \<Rightarrow> int \<Rightarrow> string \<Rightarrow> pyfloat \<Rightarrow> int \<Rightarrow> string \<Rightarrow> outcome" where
  "make_text_input w input_file quantification_window_center quantification_window_size
       min_average_read_quality fastq_dir min_frequency_alleles_around_cut_to_plot plot_window_size
       outfile =
     (let lg = [logging_info ''Making input.txt file'' []] in
     (case read_excel w input_file of
        None \<Rightarrow> raise AttributeError lg
      | Some input_df \<Rightarrow>
     (let lg = lg @ [logging_info ''Successfully opened %s'' [ArgStr input_file]];
          lg = lg @ [logging_info ''Checking for null values in input_excel.xlsx...'' []] in
     (if length (null_rows input_df) \<noteq> 0 then raise AssertionError lg else
     (case derive_paths input_df fastq_dir of Inl e \<Rightarrow> raise e lg | Inr out_df \<Rightarrow>
     (let lg = lg @ [logging_info ''Checking that all paths to fastq files exist...'' []] in
     (case missing_fastq_files w out_df of Inl e \<Rightarrow> raise e lg | Inr files \<Rightarrow>
     (let lg = lg @ warn_missing files in
     (case add_columns w input_df out_df quantification_window_center quantification_window_size
             min_average_read_quality fastq_dir min_frequency_alleles_around_cut_to_plot
             plot_window_size of
        Inl e \<Rightarrow> raise e lg
      | Inr out_df \<Rightarrow>
     (let wr = (if can_write w outfile
                then Some (outfile, to_csv out_df [CHR 0x09] False) else None);
          lg = (if can_write w outfile then lg
                else lg @ [logging_error ''Failed to write file'' [] True]);
          lg = lg @ [logging_info ''Successfully converted %s to %s for CRISPRessoBatch!''
                       [ArgStr input_file, ArgStr outfile]] in
      \<lparr>status = Exited 0, log = lg, written = wr\<rparr>))))))))))"

text \<open>
  The command line as the user gave it: the three positional arguments and, for each
  option, its converted value when the option is present. \<^verbatim>\<open>parse_args\<close> fills in
  the defaults of lines 30 to 47. The default \<^verbatim>\<open>0.2\<close> of line 42 is the double nearest
  to one fifth, \<open>3602879701896397 * 2^-54\<close>.
\<close>

record command_line =
  cl_input_file :: string
  cl_fastq_dir :: string
  cl_outfile :: string
  cl_quantification_window_center :: "int option"
  cl_quantification_window_size :: "int option"
  cl_min_average_read_quality :: "int option"
  cl_min_frequency_alleles_around_cut_to_plot :: "pyfloat option"
  cl_plot_window_size :: "int option"

definition float_0_2 :: pyfloat where
  "float_0_2 = Fin 3602879701896397 (- 54)"

definition parse_args :: "command_line \<Rightarrow> namespace" where
  "parse_args cl =
     \<lparr>ns_input_file = cl_input_file cl,
      ns_quantification_window_center =
        (case cl_quantification_window_center cl of None \<Rightarrow> - 3 | Some v \<Rightarrow> v),
      ns_quantification_window_size =
        (case cl_quantification_window_size cl of None \<Rightarrow> 1 | Some v \<Rightarrow> v),
      ns_min_average_read_quality =
        (case cl_min_average_read_quality cl of None \<Rightarrow> 10 | Some v \<Rightarrow> v),
      ns_fastq_dir = cl_fastq_dir cl,
      ns_min_frequency_alleles_around_cut_to_plot =
        (case cl_min_frequency_alleles_around_cut_to_plot cl of None \<Rightarrow> float_0_2 | Some v \<Rightarrow> v),
      ns_plot_window_size =
        (case cl_plot_window_size cl of None \<Rightarrow> 20 | Some v \<Rightarrow> v),
      ns_outfile = cl_outfile cl\<rparr>"

text \<open>
  \<^verbatim>\<open>main\<close>, lines 22 to 64: two log records, then the call. The \<^verbatim>\<open>print\<close> of line 52
  writes to standard output only and is left out.
\<close>

definition main :: "world \<Rightarrow> command_line \<Rightarrow> outcome" where
  "main w cl =
     (let lg = [logging_info ''make_text.py started in %s'' [ArgStr (getcwd w)]];
          args = parse_args cl;
          lg = lg @ [logging_info (''params:'' @ [CHR 0x0A] @ '' %s'') [ArgNamespace args]];
          r = make_text_input w
                (ns_input_file args)
                (ns_quantification_window_center args)
                (ns_quantification_window_size args)
                (ns_min_average_read_quality args)
                (ns_fastq_dir args)
                (ns_min_frequency_alleles_around_cut_to_plot args)
                (ns_plot_window_size args)
                (ns_outfile args)
      in r\<lparr>log := lg @ log r\<rparr>)"

text \<open>
  The script as run. Line 13 opens the log file when the module is loaded; when that
  fails the exception is uncaught and the process ends before anything is logged or
  read. Otherwise lines 14 to 17 log four records and \<^verbatim>\<open>main\<close> runs.
\<close>

definition module_log :: "log_record list" where
  "module_log =
     [logging_debug ''DEBUG message.'' [],
      logging_info ''INFO message.'' [],
      logging_warning ''WARNING message.'' [],
      logging_error ''ERROR message.'' [] False]"

definition script :: "world \<Rightarrow> command_line \<Rightarrow> outcome" where
  "script w cl =
     (if \<not> log_file_opens w then raise OSError []
      else (let r = main w cl in r\<lparr>log := module_log @ log r\<rparr>))"

section \<open>Notions used to state the properties\<close>

text \<open>
  The records of a written file: the header, the data records, and the field of data
  record \<open>i\<close> under the header name \<open>c\<close>.
\<close>

definition csv_header :: "csv_file \<Rightarrow> pyval list" where
  "csv_header f = hd (csv_records f)"

definition csv_rows :: "csv_file \<Rightarrow> pyval list list" where
  "csv_rows f = tl (csv_records f)"

definition csv_field :: "csv_file \<Rightarrow> nat \<Rightarrow> string \<Rightarrow> pyval option" where
  "csv_field f i c = map_of (zip (csv_header f) (csv_rows f ! i)) (PStr c)"

text \<open>
  The input the script is written for: a well-formed frame without a null cell that has
  the three columns, the sample names being strings.
\<close>

fun is_str :: "pyval \<Rightarrow> bool" where
  "is_str (PStr x) = True"
| "is_str (PInt n) = False"
| "is_str (PFloat f) = False"


text \<open>
  Closed forms of the intermediate values of \<^verbatim>\<open>make_text_input\<close>, used in the proofs:
  a cell that \<^verbatim>\<open>series + suffix\<close> accepts, the path built from a name cell, the frame
  after line 100, whether every existence check of line 104 returns, the missing paths
  that line then yields, the frame after line 124, and the log at four points of the run.
\<close>

definition str_or_null :: "pyval \<Rightarrow> bool" where
  "str_or_null v = (case v of PStr x \<Rightarrow> True | PInt n \<Rightarrow> False | PFloat f \<Rightarrow> f = NaN)"

definition path_str :: "string \<Rightarrow> string \<Rightarrow> pyval \<Rightarrow> string" where
  "path_str dir suffix v =
     dir @ (case v of PStr x \<Rightarrow> x @ suffix | PInt n \<Rightarrow> ''nan'' | PFloat f \<Rightarrow> ''nan'')"

definition path_cell :: "string \<Rightarrow> string \<Rightarrow> pyval \<Rightarrow> pyval" where
  "path_cell dir suffix v = PStr (path_str dir suffix v)"

definition paths_table :: "dataframe \<Rightarrow> pyval list \<Rightarrow> string \<Rightarrow> dataframe" where
  "paths_table df names dir =
     \<lparr>nrows = nrows df,
      cols = [(''name'', names),
              (''fastq_r1'', map (path_cell dir ''_R1_001.fastq.gz'') names),
              (''fastq_r2'', map (path_cell dir ''_R2_001.fastq.gz'') names)]\<rparr>"

definition checks_return :: "world \<Rightarrow> pyval list \<Rightarrow> string \<Rightarrow> bool" where
  "checks_return w names dir =
     (list_all (\<lambda>v. path_exists w (path_str dir ''_R2_001.fastq.gz'' v) \<noteq> None) names
      \<and> list_all (\<lambda>v. path_exists w (path_str dir ''_R1_001.fastq.gz'' v) \<noteq> None) names)"

definition missing_paths :: "world \<Rightarrow> pyval list \<Rightarrow> string \<Rightarrow> string list" where
  "missing_paths w names dir =
     remdups (filter (\<lambda>x. path_exists w x = Some False)
                (map (path_str dir ''_R2_001.fastq.gz'') names)
              @ filter (\<lambda>x. path_exists w x = Some False)
                  (map (path_str dir ''_R1_001.fastq.gz'') names))"

definition final_table ::
  "dataframe \<Rightarrow> pyval list \<Rightarrow> pyval list \<Rightarrow> pyval list \<Rightarrow> int \<Rightarrow> int \<Rightarrow> int \<Rightarrow> string \<Rightarrow> pyfloat \<Rightarrow> int \<Rightarrow> dataframe" where
  "final_table df names ref guide qwc qws marq dir mfa pws =
     \<lparr>nrows = nrows df,
      cols = [(''name'', names),
              (''quantification_window_center'', replicate (nrows df) (PInt qwc)),
              (''quantification_window_size'', replicate (nrows df) (PInt qws)),
              (''min_average_read_quality'', replicate (nrows df) (PInt marq)),
              (''fastq_r1'', map (path_cell dir ''_R1_001.fastq.gz'') names),
              (''fastq_r2'', map (path_cell dir ''_R2_001.fastq.gz'') names),
              (''amplicon_seq'', ref),
              (''guide_seq'', guide),
              (''min_frequency_alleles_around_cut_to_plot'', replicate (nrows df) (PFloat mfa)),
              (''plot_window_size'', replicate (nrows df) (PInt pws))]\<rparr>"

definition log_read :: "string \<Rightarrow> log_record list" where
  "log_read input_file =
     [logging_info ''Making input.txt file'' [],
      logging_info ''Successfully opened %s'' [ArgStr input_file],
      logging_info ''Checking for null values in input_excel.xlsx...'' []]"

definition log_checking :: "string \<Rightarrow> log_record list" where
  "log_checking input_file =
     log_read input_file
     @ [logging_info ''Checking that all paths to fastq files exist...'' []]"

definition log_checked :: "world \<Rightarrow> string \<Rightarrow> pyval list \<Rightarrow> string \<Rightarrow> log_record list" where
  "log_checked w input_file names dir =
     log_read input_file
     @ [logging_info ''Checking that all paths to fastq files exist...'' []]
     @ warn_missing (missing_paths w names dir)"

definition log_done :: "world \<Rightarrow> string \<Rightarrow> pyval list \<Rightarrow> string \<Rightarrow> string \<Rightarrow> log_record list" where
  "log_done w input_file names dir outfile =
     log_checked w input_file names dir
     @ (if can_write w outfile then [] else [logging_error ''Failed to write file'' [] True])
     @ [logging_info ''Successfully converted %s to %s for CRISPRessoBatch!''
          [ArgStr input_file, ArgStr outfile]]"

section \<open>Example runs\<close>

text \<open>
  A spreadsheet of two samples. The log file can be opened, the directory \<^verbatim>\<open>/data/\<close>
  exists and holds the two files of the first sample only, no existence check raises, and
  \<^verbatim>\<open>input.txt\<close> is the one writable path.
\<close>

definition example_df :: dataframe where
  "example_df =
     \<lparr>nrows = 2,
      cols = [(''NGS_sample_name'', [PStr ''S1'', PStr ''S2'']),
              (''Ref_sequence'', [PStr ''ACGT'', PStr ''TTGA'']),
              (''Guide_Sequence'', [PStr ''AC'', PStr ''TT''])]\<rparr>"

definition example_world :: world where
  "example_world =
     \<lparr>log_file_opens = True,
      read_excel = (\<lambda>p. if p = ''samples.xlsx'' then Some example_df else None),
      path_exists = (\<lambda>p. Some (p = ''/data/'' \<or> p = ''/data/S1_R1_001.fastq.gz''
                              \<or> p = ''/data/S1_R2_001.fastq.gz'')),
      can_write = (\<lambda>p. p = ''input.txt''),
      getcwd = ''/home/user''\<rparr>"

definition example_csv :: csv_file where
  "example_csv =
     \<lparr>csv_sep = [CHR 0x09],
      csv_records =
        [[PStr ''name'', PStr ''quantification_window_center'',
          PStr ''quantification_window_size'', PStr ''min_average_read_quality'',
          PStr ''fastq_r1'', PStr ''fastq_r2'', PStr ''amplicon_seq'', PStr ''guide_seq'',
          PStr ''min_frequency_alleles_around_cut_to_plot'', PStr ''plot_window_size''],
         [PStr ''S1'', PInt (- 3), PInt 1, PInt 10, PStr ''/data/S1_R1_001.fastq.gz'',
          PStr ''/data/S1_R2_001.fastq.gz'', PStr ''ACGT'', PStr ''AC'', PFloat float_0_2, PInt 20],
         [PStr ''S2'', PInt (- 3), PInt 1, PInt 10, PStr ''/data/S2_R1_001.fastq.gz'',
          PStr ''/data/S2_R2_001.fastq.gz'', PStr ''TTGA'', PStr ''TT'', PFloat float_0_2, PInt 20]]\<rparr>"

text \<open>
  Two spreadsheets with a null cell: one in \<^verbatim>\<open>Guide_Sequence\<close>, one in a column
  \<^verbatim>\<open>Notes\<close> that the script never selects. In their world every path exists and
  every path can be written.
\<close>

definition gaps_df :: dataframe where
  "gaps_df =
     \<lparr>nrows = 2,
      cols = [(''NGS_sample_name'', [PStr ''S1'', PStr ''S2'']),
              (''Ref_sequence'', [PStr ''ACGT'', PStr ''TTGA'']),
              (''Guide_Sequence'', [PStr ''AC'', PFloat NaN])]\<rparr>"

definition notes_df :: dataframe where
  "notes_df =
     \<lparr>nrows = 2,
      cols = [(''NGS_sample_name'', [PStr ''S1'', PStr ''S2'']),
              (''Ref_sequence'', [PStr ''ACGT'', PStr ''TTGA'']),
              (''Guide_Sequence'', [PStr ''AC'', PStr ''TT'']),
              (''Notes'', [PFloat NaN, PStr ''repeat''])]\<rparr>"

definition tables_world :: world where
  "tables_world =
     \<lparr>log_file_opens = True,
      read_excel = (\<lambda>p. if p = ''gaps.xlsx'' then Some gaps_df
                        else if p = ''notes.xlsx'' then Some notes_df else None),
      path_exists = (\<lambda>p. Some True),
      can_write = (\<lambda>p. True),
      getcwd = ''/home/user''\<rparr>"

text \<open>
  A command line that gives two of the five options, and the file \<^verbatim>\<open>main\<close> writes for
  it in the example world.
\<close>

definition example_command_line :: command_line where
  "example_command_line =
     \<lparr>cl_input_file = ''samples.xlsx'',
      cl_fastq_dir = ''/data/'',
      cl_outfile = ''input.txt'',
      cl_quantification_window_center = Some (- 5),
      cl_quantification_window_size = None,
      cl_min_average_read_quality = None,
      cl_min_frequency_alleles_around_cut_to_plot = None,
      cl_plot_window_size = Some 25\<rparr>"

definition example_main_csv :: csv_file where
  "example_main_csv =
     \<lparr>csv_sep = [CHR 0x09],
      csv_records =
        [[PStr ''name'', PStr ''quantification_window_center'',
          PStr ''quantification_window_size'', PStr ''min_average_read_quality'',
          PStr ''fastq_r1'', PStr ''fastq_r2'', PStr ''amplicon_seq'', PStr ''guide_seq'',
          PStr ''min_frequency_alleles_around_cut_to_plot'', PStr ''plot_window_size''],
         [PStr ''S1'', PInt (- 5), PInt 1, PInt 10, PStr ''/data/S1_R1_001.fastq.gz'',
          PStr ''/data/S1_R2_001.fastq.gz'', PStr ''ACGT'', PStr ''AC'', PFloat float_0_2, PInt 25],
         [PStr ''S2'', PInt (- 5), PInt 1, PInt 10, PStr ''/data/S2_R1_001.fastq.gz'',
          PStr ''/data/S2_R2_001.fastq.gz'', PStr ''TTGA'', PStr ''TT'', PFloat float_0_2, PInt 25]]\<rparr>"



section \<open>The run in closed form\<close>

lemma series_add_str_eq:
  "series_add_str vs s =
     (if list_all str_or_null vs
      then Inr (map (\<lambda>v. case v of PStr x \<Rightarrow> Some (x @ s) | PInt n \<Rightarrow> None | PFloat f \<Rightarrow> None) vs)
      else Inl TypeError)"
  by (induction vs) (auto simp: str_or_null_def isnull_def split: pyval.splits)

lemma fastq_column_eq:
  "fastq_column dir vs s =
     (if list_all str_or_null vs then Inr (map (path_cell dir s) vs) else Inl TypeError)"
  by (auto simp: fastq_column_def series_add_str_eq str_radd_def astype_str_def path_cell_def
      path_str_def split: pyval.splits)

lemma derive_paths_eq:
  "derive_paths df dir =
     (case map_of (cols df) ''NGS_sample_name'' of
        None \<Rightarrow> Inl (KeyError ''NGS_sample_name'')
      | Some names \<Rightarrow>
          if list_all str_or_null names then Inr (paths_table df names dir) else Inl TypeError)"
  by (simp add: derive_paths_def getitem_def set_columns_def getcol_def fastq_column_eq
      setitem_def paths_table_def split: option.splits)

lemma missing_in_path_cell:
  "missing_in w (map (path_cell dir s) vs) =
     (if list_all (\<lambda>v. path_exists w (path_str dir s v) \<noteq> None) vs
      then Inr (filter (\<lambda>x. path_exists w x = Some False) (map (path_str dir s) vs))
      else Inl OSError)"
  by (induction vs) (auto simp: path_cell_def split: option.splits)

lemma missing_fastq_files_eq:
  "missing_fastq_files w (paths_table df names dir) =
     (if checks_return w names dir then Inr (missing_paths w names dir) else Inl OSError)"
  by (simp add: missing_fastq_files_def getcol_def paths_table_def missing_in_path_cell
      missing_paths_def checks_return_def)

lemma add_columns_eq:
  "add_columns w df (paths_table df names dir) qwc qws marq dir mfa pws =
     (case path_exists w dir of
        None \<Rightarrow> Inl OSError
      | Some found \<Rightarrow>
         (if \<not> found then Inl AssertionError
          else case map_of (cols df) ''Ref_sequence'' of
            None \<Rightarrow> Inl (KeyError ''Ref_sequence'')
          | Some ref \<Rightarrow>
             (case map_of (cols df) ''Guide_Sequence'' of
                None \<Rightarrow> Inl (KeyError ''Guide_Sequence'')
              | Some guide \<Rightarrow>
                  if null_rows (final_table df names ref guide qwc qws marq dir mfa pws) \<noteq> []
                  then Inl AssertionError
                  else Inr (final_table df names ref guide qwc qws marq dir mfa pws))))"
  by (simp add: add_columns_def insert_col_def paths_table_def getitem_def setitem_frame_def
      setitem_def setitem_scalar_def final_table_def split: option.splits)

lemma make_text_input_eq:
  assumes "read_excel w input_file = Some df"
  shows "make_text_input w input_file qwc qws marq dir mfa pws outfile =
     (if null_rows df \<noteq> [] then raise AssertionError (log_read input_file)
      else case map_of (cols df) ''NGS_sample_name'' of
        None \<Rightarrow> raise (KeyError ''NGS_sample_name'') (log_read input_file)
      | Some names \<Rightarrow>
         (if \<not> list_all str_or_null names then raise TypeError (log_read input_file)
          else if \<not> checks_return w names dir then raise OSError (log_checking input_file)
          else case path_exists w dir of
            None \<Rightarrow> raise OSError (log_checked w input_file names dir)
          | Some found \<Rightarrow>
         (if \<not> found then raise AssertionError (log_checked w input_file names dir)
          else case map_of (cols df) ''Ref_sequence'' of
            None \<Rightarrow> raise (KeyError ''Ref_sequence'') (log_checked w input_file names dir)
          | Some ref \<Rightarrow>
             (case map_of (cols df) ''Guide_Sequence'' of
                None \<Rightarrow> raise (KeyError ''Guide_Sequence'') (log_checked w input_file names dir)
              | Some guide \<Rightarrow>
                 if null_rows (final_table df names ref guide qwc qws marq dir mfa pws) \<noteq> []
                 then raise AssertionError (log_checked w input_file names dir)
                 else \<lparr>status = Exited 0,
                       log = log_done w input_file names dir outfile,
                       written =
                         (if can_write w outfile
                          then Some (outfile,
                                 to_csv (final_table df names ref guide qwc qws marq dir mfa pws)
                                   [CHR 0x09] False)
                          else None)\<rparr>))))"
  using assms
  by (simp add: make_text_input_def derive_paths_eq missing_fastq_files_eq add_columns_eq
      log_read_def log_checking_def log_checked_def log_done_def split: option.splits)

section \<open>Facts about frames and written files\<close>

lemma null_rows_empty_iff:
  "null_rows df = [] \<longleftrightarrow> (\<forall>i<nrows df. \<forall>(c, vs) \<in> set (cols df). \<not> isnull (vs ! i))"
  by (auto simp: null_rows_def isnull_any_def filter_empty_conv list_ex_iff)

lemma no_null_cell:
  assumes "null_rows df = []" and "map_of (cols df) c = Some vs" and "i < nrows df"
  shows "\<not> isnull (vs ! i)"
  using assms map_of_SomeD[OF assms(2)] by (auto simp: null_rows_empty_iff)

lemma wf_df_length:
  assumes "wf_df df" and "map_of (cols df) c = Some vs"
  shows "length vs = nrows df"
  using assms map_of_SomeD[OF assms(2)] by (auto simp: wf_df_def list_all_iff)

lemma str_or_null_cell:
  assumes "list_all str_or_null vs" and "i < length vs" and "\<not> isnull (vs ! i)"
  shows "\<exists>x. vs ! i = PStr x"
proof -
  have "str_or_null (vs ! i)"
    using assms(1,2) by (simp add: list_all_length)
  with assms(3) show ?thesis
    by (cases "vs ! i") (simp_all add: str_or_null_def isnull_def)
qed

lemma is_str_str_or_null: "list_all is_str vs \<Longrightarrow> list_all str_or_null vs"
  by (induction vs) (auto simp: str_or_null_def split: pyval.splits)


lemma written_SomeD:
  assumes "read_excel w input_file = Some df"
    and "written (make_text_input w input_file qwc qws marq dir mfa pws outfile) = Some (p, f)"
  shows "\<exists>names ref guide.
           null_rows df = []
         \<and> map_of (cols df) ''NGS_sample_name'' = Some names
         \<and> list_all str_or_null names
         \<and> checks_return w names dir
         \<and> path_exists w dir = Some True
         \<and> map_of (cols df) ''Ref_sequence'' = Some ref
         \<and> map_of (cols df) ''Guide_Sequence'' = Some guide
         \<and> can_write w outfile \<and> p = outfile
         \<and> f = to_csv (final_table df names ref guide qwc qws marq dir mfa pws) [CHR 0x09] False"
  using assms(2) unfolding make_text_input_eq [OF assms(1)]
  by (auto simp: raise_def split: if_splits option.splits)

lemma written_read:
  assumes "written (make_text_input w input_file qwc qws marq dir mfa pws outfile) = Some (p, f)"
  shows "\<exists>df. read_excel w input_file = Some df"
  using assms by (cases "read_excel w input_file") (simp_all add: make_text_input_def raise_def)

lemma csv_rows_to_csv:
  "csv_rows (to_csv df sep False) = map (\<lambda>i. map (\<lambda>(c, vs). vs ! i) (cols df)) [0..<nrows df]"
  by (simp add: csv_rows_def to_csv_def)

lemma csv_header_to_csv:
  "csv_header (to_csv df sep False) = map (\<lambda>(c, vs). PStr c) (cols df)"
  by (simp add: csv_header_def to_csv_def)

lemma csv_field_final_table:
  assumes "i < nrows df"
  shows "csv_field (to_csv (final_table df names ref guide qwc qws marq dir mfa pws) sep False) i c =
     (if c = ''name'' then Some (names ! i)
      else if c = ''quantification_window_center'' then Some (PInt qwc)
      else if c = ''quantification_window_size'' then Some (PInt qws)
      else if c = ''min_average_read_quality'' then Some (PInt marq)
      else if c = ''fastq_r1'' then Some (map (path_cell dir ''_R1_001.fastq.gz'') names ! i)
      else if c = ''fastq_r2'' then Some (map (path_cell dir ''_R2_001.fastq.gz'') names ! i)
      else if c = ''amplicon_seq'' then Some (ref ! i)
      else if c = ''guide_seq'' then Some (guide ! i)
      else if c = ''min_frequency_alleles_around_cut_to_plot'' then Some (PFloat mfa)
      else if c = ''plot_window_size'' then Some (PInt pws)
      else None)"
  using assms
  by (simp add: csv_field_def csv_rows_to_csv csv_header_to_csv final_table_def)

lemma length_csv_rows_final_table:
  "length (csv_rows (to_csv (final_table df names ref guide qwc qws marq dir mfa pws) sep False))
     = nrows df"
  by (simp add: csv_rows_to_csv final_table_def)

lemma null_cell_null_rows:
  assumes "(c, vs) \<in> set (cols df)" and "i < nrows df" and "isnull (vs ! i)"
  shows "null_rows df \<noteq> []"
  using assms by (auto simp: null_rows_empty_iff)

lemma null_rows_abort:
  assumes "read_excel w input_file = Some df" and "null_rows df \<noteq> []"
  shows "make_text_input w input_file qwc qws marq dir mfa pws outfile
           = raise AssertionError (log_read input_file)"
  using assms(2) by (simp add: make_text_input_eq [OF assms(1)])



lemma written_main:
  "written (main w cl) =
     written (make_text_input w (cl_input_file cl)
       (case cl_quantification_window_center cl of None \<Rightarrow> - 3 | Some v \<Rightarrow> v)
       (case cl_quantification_window_size cl of None \<Rightarrow> 1 | Some v \<Rightarrow> v)
       (case cl_min_average_read_quality cl of None \<Rightarrow> 10 | Some v \<Rightarrow> v)
       (cl_fastq_dir cl)
       (case cl_min_frequency_alleles_around_cut_to_plot cl of None \<Rightarrow> float_0_2 | Some v \<Rightarrow> v)
       (case cl_plot_window_size cl of None \<Rightarrow> 20 | Some v \<Rightarrow> v)
       (cl_outfile cl))"
  by (simp add: main_def parse_args_def Let_def)

section \<open>The log and the runs on well-formed input\<close>








section \<open>The runs that end in \<^verbatim>\<open>OSError\<close>\<close>

lemma exists_check_raises:
  assumes "read_excel w input_file = Some df" and "null_rows df = []"
    and "getcol df ''NGS_sample_name'' = Inr names" and "list_all is_str names"
    and "PStr name \<in> set names"
    and "path_exists w (dir @ name @ ''_R1_001.fastq.gz'') = None
         \<or> path_exists w (dir @ name @ ''_R2_001.fastq.gz'') = None"
  shows "make_text_input w input_file qwc qws marq dir mfa pws outfile
           = raise OSError (log_checking input_file)"
proof -
  have names: "map_of (cols df) ''NGS_sample_name'' = Some names"
    using assms(3) by (simp add: getcol_def split: option.splits)
  have "path_str dir ''_R1_001.fastq.gz'' (PStr name) = dir @ name @ ''_R1_001.fastq.gz''"
       "path_str dir ''_R2_001.fastq.gz'' (PStr name) = dir @ name @ ''_R2_001.fastq.gz''"
    by (simp_all add: path_str_def)
  with assms(5,6) have "\<not> checks_return w names dir"
    unfolding checks_return_def list_all_iff by metis
  then show ?thesis
    using assms(2) names is_str_str_or_null [OF assms(4)]
    by (simp add: make_text_input_eq [OF assms(1)])
qed

lemma script_without_log_file:
  assumes "\<not> log_file_opens w"
  shows "script w cl = \<lparr>status = Raised OSError, log = [], written = None\<rparr>"
  using assms by (simp add: script_def raise_def)

section \<open>The example runs, evaluated\<close>

lemma example_read: "read_excel example_world ''samples.xlsx'' = Some example_df"
  by (simp add: example_world_def)

lemma example_wf: "wf_df example_df"
  by (simp add: wf_df_def example_df_def)

lemma example_null_rows: "null_rows example_df = []"
  by (simp add: null_rows_def isnull_any_def example_df_def isnull_def upt_rec)

lemma example_written:
  "written (make_text_input example_world ''samples.xlsx'' (- 3) 1 10 ''/data/'' float_0_2 20
      ''input.txt'') = Some (''input.txt'', example_csv)"
  by (simp add: make_text_input_eq [OF example_read] example_null_rows)
     (simp add: example_df_def example_world_def str_or_null_def checks_return_def
        final_table_def null_rows_def isnull_any_def isnull_def upt_rec path_cell_def
        path_str_def float_0_2_def to_csv_def
        example_csv_def)

lemma example_main_written:
  "written (main example_world example_command_line) = Some (''input.txt'', example_main_csv)"
  by (simp add: written_main example_command_line_def make_text_input_eq [OF example_read]
        example_null_rows)
     (simp add: example_df_def example_world_def str_or_null_def checks_return_def
        final_table_def null_rows_def isnull_any_def isnull_def upt_rec path_cell_def
        path_str_def float_0_2_def to_csv_def
        example_main_csv_def)




section \<open>The properties of the specification\<close>

text \<open>
  C1. In every row of the written output, \<^verbatim>\<open>fastq_r1\<close> and \<^verbatim>\<open>fastq_r2\<close> are the
  concatenations \<^verbatim>\<open>fastq_dir + name + "_R1_001.fastq.gz"\<close> and
  \<^verbatim>\<open>fastq_dir + name + "_R2_001.fastq.gz"\<close>, where \<^verbatim>\<open>name\<close> is the
  \<^verbatim>\<open>NGS_sample_name\<close> cell of the same row of the input and the directory string is
  used as given, with no separator added.
\<close>

theorem fastq_paths_concatenate:
  assumes "read_excel w input_file = Some input_df" and "wf_df input_df"
    and "written (make_text_input w input_file qwc qws marq fastq_dir mfa pws outfile) = Some (p, f)"
    and "i < nrows input_df"
  shows "\<exists>names name.
           getcol input_df ''NGS_sample_name'' = Inr names \<and> names ! i = PStr name
         \<and> i < length (csv_rows f)
         \<and> csv_field f i ''name'' = Some (PStr name)
         \<and> csv_field f i ''fastq_r1'' = Some (PStr (fastq_dir @ name @ ''_R1_001.fastq.gz''))
         \<and> csv_field f i ''fastq_r2'' = Some (PStr (fastq_dir @ name @ ''_R2_001.fastq.gz''))"
proof -
  obtain names ref guide where
    nulls: "null_rows input_df = []" and
    names: "map_of (cols input_df) ''NGS_sample_name'' = Some names" and
    strs: "list_all str_or_null names" and
    f: "f = to_csv (final_table input_df names ref guide qwc qws marq fastq_dir mfa pws) [CHR 0x09] False"
    using written_SomeD [OF assms(1,3)] by blast
  have len: "length names = nrows input_df"
    using assms(2) names by (rule wf_df_length)
  have "\<not> isnull (names ! i)"
    using nulls names assms(4) by (rule no_null_cell)
  then obtain name where name: "names ! i = PStr name"
    using str_or_null_cell [OF strs] len assms(4) by auto
  have "getcol input_df ''NGS_sample_name'' = Inr names"
    by (simp add: getcol_def names)
  moreover have "i < length (csv_rows f)"
    using assms(4) by (simp add: f length_csv_rows_final_table)
  moreover have "csv_field f i ''name'' = Some (PStr name)"
    using assms(4) name by (simp add: f csv_field_final_table)
  moreover have "csv_field f i ''fastq_r1'' = Some (PStr (fastq_dir @ name @ ''_R1_001.fastq.gz''))"
    using assms(4) name len by (simp add: f csv_field_final_table path_cell_def path_str_def)
  moreover have "csv_field f i ''fastq_r2'' = Some (PStr (fastq_dir @ name @ ''_R2_001.fastq.gz''))"
    using assms(4) name len by (simp add: f csv_field_final_table path_cell_def path_str_def)
  ultimately show ?thesis
    using name by blast
qed

theorem fastq_paths_concatenate_witness:
  "1 < length (csv_rows example_csv)
   \<and> csv_field example_csv 1 ''name'' = Some (PStr ''S2'')
   \<and> csv_field example_csv 1 ''fastq_r1'' = Some (PStr ''/data/S2_R1_001.fastq.gz'')
   \<and> csv_field example_csv 1 ''fastq_r2'' = Some (PStr ''/data/S2_R2_001.fastq.gz'')"
proof -
  have i: "1 < nrows example_df"
    by (simp add: example_df_def)
  from fastq_paths_concatenate [OF example_read example_wf example_written i]
  show ?thesis
    by (simp add: getcol_def example_df_def)
qed

text \<open>
  C2. A spreadsheet with a null cell in one of the columns \<^verbatim>\<open>NGS_sample_name\<close>,
  \<^verbatim>\<open>Ref_sequence\<close>, \<^verbatim>\<open>Guide_Sequence\<close> makes the run end in an assertion failure,
  and no output file is written.
\<close>

theorem null_in_required_column_aborts:
  assumes "read_excel w input_file = Some input_df"
    and "c = ''NGS_sample_name'' \<or> c = ''Ref_sequence'' \<or> c = ''Guide_Sequence''"
    and "(c, vs) \<in> set (cols input_df)" and "i < nrows input_df" and "isnull (vs ! i)"
  shows "status (make_text_input w input_file qwc qws marq fastq_dir mfa pws outfile)
           = Raised AssertionError
       \<and> written (make_text_input w input_file qwc qws marq fastq_dir mfa pws outfile) = None"
proof -
  have "null_rows input_df \<noteq> []"
    using assms(3-5) by (rule null_cell_null_rows)
  with assms(1) show ?thesis
    by (simp add: null_rows_abort raise_def)
qed

theorem null_in_required_column_aborts_witness:
  "status (make_text_input tables_world ''gaps.xlsx'' (- 3) 1 10 ''/data/'' float_0_2 20 ''input.txt'')
     = Raised AssertionError
   \<and> written (make_text_input tables_world ''gaps.xlsx'' (- 3) 1 10 ''/data/'' float_0_2 20 ''input.txt'')
     = None"
proof -
  have r: "read_excel tables_world ''gaps.xlsx'' = Some gaps_df"
    by (simp add: tables_world_def)
  have c: "''Guide_Sequence'' = ''NGS_sample_name'' \<or> ''Guide_Sequence'' = ''Ref_sequence''
           \<or> ''Guide_Sequence'' = ''Guide_Sequence''"
    by simp
  have m: "(''Guide_Sequence'', [PStr ''AC'', PFloat NaN]) \<in> set (cols gaps_df)"
    by (simp add: gaps_df_def)
  have i: "1 < nrows gaps_df"
    by (simp add: gaps_df_def)
  have n: "isnull ([PStr ''AC'', PFloat NaN] ! 1)"
    by (simp add: isnull_def)
  from null_in_required_column_aborts [OF r c m i n] show ?thesis .
qed

text \<open>
  C3. In every row of the output that \<^verbatim>\<open>main\<close> writes, the five constant columns hold
  the values given on the command line, and the defaults \<^verbatim>\<open>-3\<close>, \<^verbatim>\<open>1\<close>, \<^verbatim>\<open>10\<close>,
  \<^verbatim>\<open>0.2\<close> and \<^verbatim>\<open>20\<close> for the options that were not given.
\<close>

theorem constant_columns_from_command_line:
  assumes "written (main w cl) = Some (p, f)" and "i < length (csv_rows f)"
  shows "csv_field f i ''quantification_window_center''
           = Some (PInt (case cl_quantification_window_center cl of None \<Rightarrow> - 3 | Some v \<Rightarrow> v))
       \<and> csv_field f i ''quantification_window_size''
           = Some (PInt (case cl_quantification_window_size cl of None \<Rightarrow> 1 | Some v \<Rightarrow> v))
       \<and> csv_field f i ''min_average_read_quality''
           = Some (PInt (case cl_min_average_read_quality cl of None \<Rightarrow> 10 | Some v \<Rightarrow> v))
       \<and> csv_field f i ''min_frequency_alleles_around_cut_to_plot''
           = Some (PFloat (case cl_min_frequency_alleles_around_cut_to_plot cl of
                             None \<Rightarrow> float_0_2 | Some v \<Rightarrow> v))
       \<and> csv_field f i ''plot_window_size''
           = Some (PInt (case cl_plot_window_size cl of None \<Rightarrow> 20 | Some v \<Rightarrow> v))"
proof -
  let ?qwc = "case cl_quantification_window_center cl of None \<Rightarrow> - 3 | Some v \<Rightarrow> v"
  let ?qws = "case cl_quantification_window_size cl of None \<Rightarrow> 1 | Some v \<Rightarrow> v"
  let ?marq = "case cl_min_average_read_quality cl of None \<Rightarrow> 10 | Some v \<Rightarrow> v"
  let ?mfa = "case cl_min_frequency_alleles_around_cut_to_plot cl of None \<Rightarrow> float_0_2 | Some v \<Rightarrow> v"
  let ?pws = "case cl_plot_window_size cl of None \<Rightarrow> 20 | Some v \<Rightarrow> v"
  have run: "written (make_text_input w (cl_input_file cl) ?qwc ?qws ?marq (cl_fastq_dir cl) ?mfa
               ?pws (cl_outfile cl)) = Some (p, f)"
    using assms(1) by (simp only: written_main)
  obtain df where df: "read_excel w (cl_input_file cl) = Some df"
    using written_read [OF run] by blast
  obtain names ref guide where
    f: "f = to_csv (final_table df names ref guide ?qwc ?qws ?marq (cl_fastq_dir cl) ?mfa ?pws)
              [CHR 0x09] False"
    using written_SomeD [OF df run] by blast
  have i: "i < nrows df"
    using assms(2) by (simp add: f length_csv_rows_final_table)
  show ?thesis
    unfolding f by (simp add: csv_field_final_table [OF i])
qed

theorem constant_columns_from_command_line_witness:
  "csv_field example_main_csv 1 ''quantification_window_center'' = Some (PInt (- 5))
   \<and> csv_field example_main_csv 1 ''quantification_window_size'' = Some (PInt 1)
   \<and> csv_field example_main_csv 1 ''min_average_read_quality'' = Some (PInt 10)
   \<and> csv_field example_main_csv 1 ''min_frequency_alleles_around_cut_to_plot''
       = Some (PFloat float_0_2)
   \<and> csv_field example_main_csv 1 ''plot_window_size'' = Some (PInt 25)"
proof -
  have i: "1 < length (csv_rows example_main_csv)"
    by (simp add: csv_rows_def example_main_csv_def)
  from constant_columns_from_command_line [OF example_main_written i] show ?thesis
    by (simp add: example_command_line_def)
qed

text \<open>
  C4. When the run on a spreadsheet of \<open>N\<close> rows writes its output, the spreadsheet has
  no null cell and the file holds one header record followed by exactly \<open>N\<close> data
  records.
\<close>

theorem output_row_count:
  assumes "read_excel w input_file = Some input_df"
    and "written (make_text_input w input_file qwc qws marq fastq_dir mfa pws outfile) = Some (p, f)"
  shows "null_rows input_df = []
       \<and> csv_records f = csv_header f # csv_rows f
       \<and> length (csv_rows f) = nrows input_df"
proof -
  obtain names ref guide where
    nulls: "null_rows input_df = []" and
    f: "f = to_csv (final_table input_df names ref guide qwc qws marq fastq_dir mfa pws) [CHR 0x09] False"
    using written_SomeD [OF assms] by blast
  have "csv_records f = csv_header f # csv_rows f"
    by (simp add: f to_csv_def csv_header_def csv_rows_def)
  moreover have "length (csv_rows f) = nrows input_df"
    by (simp add: f length_csv_rows_final_table)
  ultimately show ?thesis
    using nulls by simp
qed

theorem output_row_count_witness:
  "csv_records example_csv = csv_header example_csv # csv_rows example_csv
   \<and> length (csv_rows example_csv) = 2"
proof -
  from output_row_count [OF example_read example_written] show ?thesis
    by (simp add: example_df_def)
qed

text \<open>
  C5. The written output goes to the output path with the tab as separator; its header
  names the ten columns in the order \<^verbatim>\<open>name\<close>, \<^verbatim>\<open>quantification_window_center\<close>,
  \<^verbatim>\<open>quantification_window_size\<close>, \<^verbatim>\<open>min_average_read_quality\<close>, \<^verbatim>\<open>fastq_r1\<close>,
  \<^verbatim>\<open>fastq_r2\<close>, \<^verbatim>\<open>amplicon_seq\<close>, \<^verbatim>\<open>guide_seq\<close>,
  \<^verbatim>\<open>min_frequency_alleles_around_cut_to_plot\<close>, \<^verbatim>\<open>plot_window_size\<close>, and every data
  record has exactly these ten fields, so there is no index column.
\<close>

theorem output_layout:
  assumes "written (make_text_input w input_file qwc qws marq fastq_dir mfa pws outfile) = Some (p, f)"
  shows "p = outfile \<and> csv_sep f = [CHR 0x09]
       \<and> csv_header f =
           [PStr ''name'', PStr ''quantification_window_center'',
            PStr ''quantification_window_size'', PStr ''min_average_read_quality'',
            PStr ''fastq_r1'', PStr ''fastq_r2'', PStr ''amplicon_seq'', PStr ''guide_seq'',
            PStr ''min_frequency_alleles_around_cut_to_plot'', PStr ''plot_window_size'']
       \<and> (\<forall>r \<in> set (csv_rows f). length r = 10)"
proof -
  obtain df where df: "read_excel w input_file = Some df"
    using written_read [OF assms] by blast
  obtain names ref guide where
    p: "p = outfile" and
    f: "f = to_csv (final_table df names ref guide qwc qws marq fastq_dir mfa pws) [CHR 0x09] False"
    using written_SomeD [OF df assms] by blast
  have "csv_sep f = [CHR 0x09]"
    by (simp add: f to_csv_def)
  moreover have "csv_header f =
           [PStr ''name'', PStr ''quantification_window_center'',
            PStr ''quantification_window_size'', PStr ''min_average_read_quality'',
            PStr ''fastq_r1'', PStr ''fastq_r2'', PStr ''amplicon_seq'', PStr ''guide_seq'',
            PStr ''min_frequency_alleles_around_cut_to_plot'', PStr ''plot_window_size'']"
    by (simp add: f csv_header_to_csv final_table_def)
  moreover have "\<forall>r \<in> set (csv_rows f). length r = 10"
    by (auto simp: f csv_rows_to_csv final_table_def)
  ultimately show ?thesis
    using p by simp
qed

theorem output_layout_witness:
  "csv_sep example_csv = [CHR 0x09]
   \<and> csv_header example_csv =
           [PStr ''name'', PStr ''quantification_window_center'',
            PStr ''quantification_window_size'', PStr ''min_average_read_quality'',
            PStr ''fastq_r1'', PStr ''fastq_r2'', PStr ''amplicon_seq'', PStr ''guide_seq'',
            PStr ''min_frequency_alleles_around_cut_to_plot'', PStr ''plot_window_size'']
   \<and> map length (csv_rows example_csv) = [10, 10]"
proof -
  from output_layout [OF example_written] show ?thesis
    by (simp add: csv_rows_def example_csv_def)
qed





text \<open>
  C7. The specification has an unreadable input file logged as an error, with no exception
  from the handler and the run going on. In the code the handler of line 87 calls
  \<^verbatim>\<open>logging.info.error\<close>, which does not exist: the handler raises
  \<^verbatim>\<open>AttributeError\<close>, the only record logged is the first one, and the run ends there.
  Line 133 logs the write failure with \<^verbatim>\<open>logging.error\<close>, as line 87 meant to.
\<close>

theorem unreadable_input_raises_in_handler:
  "read_excel example_world ''missing.xlsx'' = None
   \<and> status (make_text_input example_world ''missing.xlsx'' (- 3) 1 10 ''/data/'' float_0_2 20
               ''input.txt'') = Raised AttributeError
   \<and> exit_code (status (make_text_input example_world ''missing.xlsx'' (- 3) 1 10 ''/data/''
                 float_0_2 20 ''input.txt'')) = 1
   \<and> log (make_text_input example_world ''missing.xlsx'' (- 3) 1 10 ''/data/'' float_0_2 20
            ''input.txt'') = [logging_info ''Making input.txt file'' []]
   \<and> written (make_text_input example_world ''missing.xlsx'' (- 3) 1 10 ''/data/'' float_0_2 20
                ''input.txt'') = None"
  by (simp add: make_text_input_def example_world_def raise_def)






text \<open>
  C10. The null check of line 90 looks at every column of the spreadsheet: a null cell in
  any column, also one the script never selects, makes the run end in an assertion failure
  with no output written.
\<close>

theorem null_in_any_column_aborts:
  assumes "read_excel w input_file = Some input_df"
    and "(c, vs) \<in> set (cols input_df)" and "i < nrows input_df" and "isnull (vs ! i)"
  shows "status (make_text_input w input_file qwc qws marq fastq_dir mfa pws outfile)
           = Raised AssertionError
       \<and> written (make_text_input w input_file qwc qws marq fastq_dir mfa pws outfile) = None"
proof -
  have "null_rows input_df \<noteq> []"
    using assms(2-4) by (rule null_cell_null_rows)
  with assms(1) show ?thesis
    by (simp add: null_rows_abort raise_def)
qed

theorem null_in_any_column_aborts_witness:
  "''Notes'' \<notin> {''NGS_sample_name'', ''Ref_sequence'', ''Guide_Sequence''}
   \<and> status (make_text_input tables_world ''notes.xlsx'' (- 3) 1 10 ''/data/'' float_0_2 20 ''input.txt'')
     = Raised AssertionError
   \<and> written (make_text_input tables_world ''notes.xlsx'' (- 3) 1 10 ''/data/'' float_0_2 20 ''input.txt'')
     = None"
proof -
  have r: "read_excel tables_world ''notes.xlsx'' = Some notes_df"
    by (simp add: tables_world_def)
  have m: "(''Notes'', [PFloat NaN, PStr ''repeat'']) \<in> set (cols notes_df)"
    by (simp add: notes_df_def)
  have i: "0 < nrows notes_df"
    by (simp add: notes_df_def)
  have n: "isnull ([PFloat NaN, PStr ''repeat''] ! 0)"
    by (simp add: isnull_def)
  from null_in_any_column_aborts [OF r m i n] show ?thesis
    by simp
qed

end
